theory Spec2Isabelle
  imports Main
begin

section \<open>Characters and strings\<close>

text \<open>
  A Python \<open>str\<close> is modelled as a \<open>string\<close>, a list of characters whose code points
  lie below 256.  The three character tables that the source relies on (through \<open>re\<close> and
  through \<open>str.strip\<close>, \<open>str.lower\<close>) are the ones of CPython for these code points.
\<close>

definition code :: "char \<Rightarrow> nat" where
  "code c = of_char c"

text \<open>\<open>str.isspace\<close>, the class \<open>\s\<close> of \<open>re\<close>, and what \<open>strip()\<close> removes.\<close>

definition is_space :: "char \<Rightarrow> bool" where
  "is_space c = (let n = code c in
     (9 \<le> n \<and> n \<le> 13) \<or> (28 \<le> n \<and> n \<le> 32) \<or> n = 133 \<or> n = 160)"

text \<open>The class \<open>\w\<close> of \<open>re\<close> on \<open>str\<close> patterns: alphanumeric or underscore.\<close>

definition is_word :: "char \<Rightarrow> bool" where
  "is_word c = (let n = code c in
     (48 \<le> n \<and> n \<le> 57) \<or> (65 \<le> n \<and> n \<le> 90) \<or> n = 95 \<or> (97 \<le> n \<and> n \<le> 122)
     \<or> n = 170 \<or> n = 178 \<or> n = 179 \<or> n = 181 \<or> (185 \<le> n \<and> n \<le> 186)
     \<or> (188 \<le> n \<and> n \<le> 190) \<or> (192 \<le> n \<and> n \<le> 214) \<or> (216 \<le> n \<and> n \<le> 246)
     \<or> 248 \<le> n)"

text \<open>Lower-casing of one character, as \<open>str.lower\<close> and \<open>re.IGNORECASE\<close> do it.\<close>

definition is_upper :: "char \<Rightarrow> bool" where
  "is_upper c = (let n = code c in
     (65 \<le> n \<and> n \<le> 90) \<or> (192 \<le> n \<and> n \<le> 214) \<or> (216 \<le> n \<and> n \<le> 222))"

definition lower_char :: "char \<Rightarrow> char" where
  "lower_char c = (if is_upper c then char_of (code c + 32) else c)"

definition lower :: "string \<Rightarrow> string" where
  "lower s = map lower_char s"

text \<open>\<open>s.rstrip()\<close>, \<open>s.rstrip(";")\<close>, \<open>s.lstrip()\<close> and \<open>s.strip()\<close>.\<close>

definition rstrip_where :: "(char \<Rightarrow> bool) \<Rightarrow> string \<Rightarrow> string" where
  "rstrip_where P s = rev (dropWhile P (rev s))"

definition rstrip :: "string \<Rightarrow> string" where
  "rstrip s = rstrip_where is_space s"

definition rstrip_semicolon :: "string \<Rightarrow> string" where
  "rstrip_semicolon s = rstrip_where (\<lambda>c. c = CHR '';'') s"

definition lstrip :: "string \<Rightarrow> string" where
  "lstrip s = dropWhile is_space s"

definition strip :: "string \<Rightarrow> string" where
  "strip s = lstrip (rstrip s)"

section \<open>The regular expressions of the source\<close>

text \<open>
  A literal of a pattern compiled with \<open>re.IGNORECASE\<close> matches the text at index \<open>i\<close>
  when the text has that many characters from \<open>i\<close> on and they agree up to case.
\<close>

definition lit_at :: "string \<Rightarrow> string \<Rightarrow> nat \<Rightarrow> bool" where
  "lit_at p s i = (i + length p \<le> length s \<and> lower (take (length p) (drop i s)) = lower p)"

text \<open>
  \<open>\b\<close> at index \<open>i\<close>: exactly one of the characters before and at \<open>i\<close> is a word
  character, where a missing character (start or end of the text) counts as a non-word.
\<close>

definition word_at :: "string \<Rightarrow> nat \<Rightarrow> bool" where
  "word_at s i = (i < length s \<and> is_word (s ! i))"

definition boundary :: "string \<Rightarrow> nat \<Rightarrow> bool" where
  "boundary s i = ((0 < i \<and> word_at s (i - 1)) \<noteq> word_at s i)"

text \<open>A literal between two \<open>\b\<close>, tried at index \<open>i\<close>.\<close>

definition bounded_lit_at :: "string \<Rightarrow> string \<Rightarrow> nat \<Rightarrow> bool" where
  "bounded_lit_at p s i = (boundary s i \<and> lit_at p s i \<and> boundary s (i + length p))"

text \<open>\<open>re.search\<close> tries every start index from 0 to the length of the text.\<close>

definition starts :: "string \<Rightarrow> nat list" where
  "starts s = [0..<Suc (length s)]"

text \<open>
  \<open>FORBIDDEN = re.compile(r"\b(INSERT|...|COPY|;|\$\$)\b", re.IGNORECASE)\<close>: the
  alternatives of the group, in the order of the source.
\<close>

definition FORBIDDEN_alternatives :: "string list" where
  "FORBIDDEN_alternatives =
     [''INSERT'', ''UPDATE'', ''DELETE'', ''ALTER'', ''DROP'', ''TRUNCATE'', ''VACUUM'',
      ''CREATE'', ''GRANT'', ''REVOKE'', ''COPY'', '';'', ''$$'']"

definition FORBIDDEN_search :: "string \<Rightarrow> bool" where
  "FORBIDDEN_search s =
     (\<exists>i \<in> set (starts s). \<exists>p \<in> set FORBIDDEN_alternatives. bounded_lit_at p s i)"

text \<open>
  \<open>re.match(r"^\s*SELECT\b", sql, re.IGNORECASE)\<close>: some number \<open>n\<close> of leading
  whitespace characters, then the literal, then \<open>\b\<close>.
\<close>

definition SELECT_match :: "string \<Rightarrow> bool" where
  "SELECT_match s =
     (\<exists>n \<in> set (starts s).
        list_all is_space (take n s) \<and> lit_at ''SELECT'' s n \<and> boundary s (n + 6))"

text \<open>\<open>re.search(r"\bLIMIT\b", sql, re.IGNORECASE)\<close>.\<close>

definition LIMIT_search :: "string \<Rightarrow> bool" where
  "LIMIT_search s = (\<exists>i \<in> set (starts s). bounded_lit_at ''LIMIT'' s i)"

section \<open>The gate\<close>

text \<open>The three \<open>ValueError\<close>s that \<open>enforce_read_only\<close> raises, by their message.\<close>

datatype error =
    Forbidden_keywords_detected
  | Multiple_statements_detected
  | Only_SELECT_queries_allowed

definition enforce_read_only :: "string \<Rightarrow> error + string" where
  "enforce_read_only sql =
     (if FORBIDDEN_search sql then Inl Forbidden_keywords_detected
      else if 1 < count_list sql CHR '';'' then Inl Multiple_statements_detected
      else if \<not> SELECT_match sql then Inl Only_SELECT_queries_allowed
      else if \<not> LIMIT_search sql then Inr (rstrip_semicolon (rstrip sql) @ '' LIMIT 100'')
      else Inr sql)"

section \<open>Extraction of the statement from the model's answer\<close>

text \<open>
  \<open>re.search(r"```sql\s*(.*?)```", text, re.IGNORECASE | re.DOTALL)\<close>.  From the start
  index \<open>i\<close> the pattern reads the opening fence, \<open>k\<close> whitespace characters, the
  \<open>n\<close> characters of group 1 (any characters: \<open>re.DOTALL\<close>), and the closing fence.
\<close>

definition fence_at :: "string \<Rightarrow> nat \<Rightarrow> nat \<Rightarrow> nat \<Rightarrow> bool" where
  "fence_at s i k n =
     (lit_at ''```sql'' s i \<and> list_all is_space (take k (drop (i + 6) s))
      \<and> lit_at ''```'' s (i + 6 + k + n))"

text \<open>
  The match that \<open>re.search\<close> returns: the leftmost start \<open>i\<close>; for it the largest
  \<open>k\<close> that still leads to a match (\<open>\s*\<close> is greedy and gives characters back one
  by one); for these the smallest \<open>n\<close> (\<open>.*?\<close> is lazy).  The result is group 1.
\<close>

definition fence_search :: "string \<Rightarrow> string option" where
  "fence_search s =
     (case find (\<lambda>i. \<exists>k \<in> set (starts s). \<exists>n \<in> set (starts s). fence_at s i k n) (starts s) of
        None \<Rightarrow> None
      | Some i \<Rightarrow>
         (case find (\<lambda>k. \<exists>n \<in> set (starts s). fence_at s i k n) (rev (starts s)) of
            None \<Rightarrow> None
          | Some k \<Rightarrow>
             (case find (\<lambda>n. fence_at s i k n) (starts s) of
                None \<Rightarrow> None
              | Some n \<Rightarrow> Some (take n (drop (i + 6 + k) s)))))"

definition extract_sql :: "string \<Rightarrow> string" where
  "extract_sql text = (case fence_search text of Some g \<Rightarrow> strip g | None \<Rightarrow> strip text)"

section \<open>The secondary guard\<close>

text \<open>\<open>q.startswith(p)\<close>.\<close>

definition startswith :: "string \<Rightarrow> string \<Rightarrow> bool" where
  "startswith q p = (take (length p) q = p)"

text \<open>
  \<open>q = query.strip().lower(); return q.startswith("select") and ";" not in q[6:]\<close>
\<close>

definition is_select_only :: "string \<Rightarrow> bool" where
  "is_select_only query =
     (let q = lower (strip query) in startswith q ''select'' \<and> CHR '';'' \<notin> set (drop 6 q))"

section \<open>The vocabulary of the specification\<close>

text \<open>
  The words of a text are its maximal runs of word characters; a keyword occurs as a
  whole word when it is one of them, up to case.
\<close>

function word_runs :: "string \<Rightarrow> string list" where
  "word_runs [] = []"
| "word_runs (c # cs) =
     (if is_word c then (c # takeWhile is_word cs) # word_runs (dropWhile is_word cs)
      else word_runs cs)"
  by pat_completeness auto
termination
  by (relation "measure length") (auto simp: less_Suc_eq_le length_dropWhile_le)

definition has_word :: "string \<Rightarrow> string \<Rightarrow> bool" where
  "has_word k s = (lower k \<in> set (map lower (word_runs s)))"

definition forbidden_keywords :: "string list" where
  "forbidden_keywords =
     [''INSERT'', ''UPDATE'', ''DELETE'', ''ALTER'', ''DROP'', ''TRUNCATE'', ''VACUUM'',
      ''CREATE'', ''GRANT'', ''REVOKE'', ''COPY'']"

definition has_forbidden_keyword :: "string \<Rightarrow> bool" where
  "has_forbidden_keyword s = (\<exists>k \<in> set forbidden_keywords. has_word k s)"

text \<open>The text begins, after leading whitespace, with the word SELECT in any case.\<close>

definition begins_with_SELECT :: "string \<Rightarrow> bool" where
  "begins_with_SELECT s = (lower (takeWhile is_word (lstrip s)) = lower ''SELECT'')"

text \<open>The statement terminator, when it is the last character.\<close>

definition strip_terminator :: "string \<Rightarrow> string" where
  "strip_terminator s = (if s \<noteq> [] \<and> last s = CHR '';'' then butlast s else s)"

text \<open>
  The first block of the text that opens with a fence tagged \<open>sql\<close> (in any case) and is
  closed by the next fence; its interior, or nothing when no such block exists.
\<close>

definition find_lit :: "string \<Rightarrow> string \<Rightarrow> nat option" where
  "find_lit p s = find (\<lambda>i. lit_at p s i) (starts s)"

definition sql_block :: "string \<Rightarrow> string option" where
  "sql_block text =
     (case find_lit ''```sql'' text of
        None \<Rightarrow> None
      | Some i \<Rightarrow>
         (let rest = drop (i + 6) text in
          case find_lit ''```'' rest of
            None \<Rightarrow> None
          | Some j \<Rightarrow> Some (take j rest)))"

text \<open>
  A text ends, or begins, with a word character; and a literal occurs in a text directly
  between two word characters.
\<close>

definition ends_word :: "string \<Rightarrow> bool" where
  "ends_word s = (s \<noteq> [] \<and> is_word (last s))"

definition begins_word :: "string \<Rightarrow> bool" where
  "begins_word s = (s \<noteq> [] \<and> is_word (hd s))"

fun enclosed :: "string \<Rightarrow> string \<Rightarrow> bool" where
  "enclosed p [] = False"
| "enclosed p (c # cs) =
     (if startswith cs p
      then (is_word c \<and> begins_word (drop (length p) cs)) \<or> enclosed p cs
      else enclosed p cs)"

section \<open>Facts about the character tables\<close>

lemma lower_char_code [code]:
  "lower_char c = (if is_upper c
     then Char (digit0 c) (digit1 c) (digit2 c) (digit3 c) (digit4 c) True (digit6 c) (digit7 c)
     else c)"
proof (cases c)
  case (Char b0 b1 b2 b3 b4 b5 b6 b7)
  show ?thesis
    unfolding Char lower_char_def is_upper_def code_def Let_def
    by (cases b0; cases b1; cases b2; cases b3; cases b4; cases b5; cases b6; cases b7;
        simp add: char_of_def bit_Suc_0_iff)
qed

lemma code_less: "code c < 256"
  by (simp add: code_def)

lemma code_eq_iff: "(c = d) = (code c = code d)"
  by (simp add: code_def)

lemma code_lower_char:
  "code (lower_char c) = (if is_upper c then code c + 32 else code c)"
proof (cases "is_upper c")
  case True
  then have "code c + 32 < 256"
    by (simp add: is_upper_def Let_def) arith
  with True show ?thesis
    by (simp add: lower_char_def code_def)
next
  case False
  then show ?thesis by (simp add: lower_char_def)
qed


lemma upper_is_word: "is_upper c \<Longrightarrow> is_word c"
  unfolding is_upper_def is_word_def Let_def by (elim disjE conjE; simp)

lemma upper_lower_is_word: "is_upper c \<Longrightarrow> is_word (lower_char c)"
  unfolding is_word_def Let_def code_lower_char
  unfolding is_upper_def Let_def by (elim disjE conjE; simp)

lemma is_word_lower_char: "is_word (lower_char c) = is_word c"
  by (cases "is_upper c") (simp_all add: upper_is_word upper_lower_is_word, simp add: lower_char_def)

lemma space_not_word: "is_space c \<Longrightarrow> \<not> is_word c"
  unfolding is_space_def is_word_def Let_def by (elim disjE conjE; simp)

lemma lower_char_plain: "\<not> is_word d \<Longrightarrow> lower_char d = d"
  using upper_is_word [of d] by (auto simp: lower_char_def)

lemma lower_char_eq_plain:
  "\<not> is_word d \<Longrightarrow> (lower_char c = lower_char d) = (c = d)"
  using is_word_lower_char [of c] by (auto simp: lower_char_plain)

section \<open>The secondary guard \<open>is_select_only\<close>\<close>

lemma startswith_iff: "startswith q p = (\<exists>rest. q = p @ rest)"
proof
  assume "startswith q p"
  then have "q = p @ drop (length p) q"
    unfolding startswith_def by (metis append_take_drop_id)
  then show "\<exists>rest. q = p @ rest" ..
next
  assume "\<exists>rest. q = p @ rest"
  then show "startswith q p" by (auto simp: startswith_def)
qed

text \<open>
  Claim C9.  \<open>is_select_only q\<close> holds exactly when the trimmed, lower-cased query is
  \<open>select\<close> followed by a rest without \<open>;\<close>.  So \<open>SELECT 1;\<close>, with its harmless
  trailing terminator, is refused, and a text that merely starts with the letters of
  \<open>select\<close>, such as \<open>selection of rows\<close>, is let through.
\<close>

theorem is_select_only_iff:
  "(is_select_only q \<longleftrightarrow>
      (\<exists>rest. lower (strip q) = ''select'' @ rest \<and> CHR '';'' \<notin> set rest))
   \<and> \<not> is_select_only ''SELECT 1;''
   \<and> is_select_only ''selection of rows''"
proof (intro conjI)
  show "is_select_only q \<longleftrightarrow>
      (\<exists>rest. lower (strip q) = ''select'' @ rest \<and> CHR '';'' \<notin> set rest)"
    unfolding is_select_only_def Let_def startswith_iff by auto
  show "\<not> is_select_only ''SELECT 1;''" by code_simp
  show "is_select_only ''selection of rows''" by code_simp
qed

end
